theory Spec2Isabelle
  imports Complex_Main "HOL-Library.AList"
begin

section \<open>JavaScript strings\<close>

text \<open>
  A JavaScript string is a sequence of UTF-16 code units; \<open>length\<close>, \<open>slice\<close>, \<open>substring\<close>
  and the regular expressions without the \<open>u\<close> flag all count code units. A code unit is
  modelled by its number (below 65536). ASCII literals are written through \<open>js\<close>.
\<close>

type_synonym jsstring = "nat list"

definition js :: "string \<Rightarrow> jsstring" where
  "js s = map of_char s"

text \<open>
  \<open>String.prototype.trim\<close> removes WhiteSpace and LineTerminator code points from both ends
  (ECMA-262): TAB, LF, VT, FF, CR, SP, NBSP, U+1680, U+2000..U+200A, U+2028, U+2029, U+202F,
  U+205F, U+3000 and U+FEFF. The regular-expression class \<open>\s\<close> is the same set.
\<close>

definition isWhiteSpace :: "nat \<Rightarrow> bool" where
  "isWhiteSpace c \<longleftrightarrow>
     (9 \<le> c \<and> c \<le> 13) \<or> c = 32 \<or> c = 160 \<or> c = 5760 \<or> (8192 \<le> c \<and> c \<le> 8202) \<or>
     c = 8232 \<or> c = 8233 \<or> c = 8239 \<or> c = 8287 \<or> c = 12288 \<or> c = 65279"

definition trim :: "jsstring \<Rightarrow> jsstring" where
  "trim s = rev (dropWhile isWhiteSpace (rev (dropWhile isWhiteSpace s)))"

text \<open>
  \<open>s.slice(a, b)\<close> with integer arguments: a negative index counts from the end, both
  indices are clamped to the string, and an empty string results when the range is empty.
\<close>

definition slice :: "jsstring \<Rightarrow> int \<Rightarrow> int \<Rightarrow> jsstring" where
  "slice s a b =
     (let len = int (length s);
          from = (if a < 0 then max (len + a) 0 else min a len);
          to = (if b < 0 then max (len + b) 0 else min b len)
      in take (nat (to - from)) (drop (nat from) s))"

section \<open>Chunker (src/utils/chunk.ts)\<close>

record TextChunk =
  chunk_id :: jsstring
  chunk_text :: jsstring
  chunk_sourcePath :: jsstring
  chunk_offset :: int
  chunk_timestamp :: int
  chunk_sessionKey :: "jsstring option"
  chunk_metadata :: "(jsstring \<times> jsstring) list option"

text \<open>
  \<open>Partial<ChunkOptions>\<close>: every field may be missing; the destructuring in \<open>chunkText\<close>
  supplies the defaults. Numbers are modelled as integers.
\<close>

record ChunkOptions =
  chunkSize :: "int option"
  chunkOverlap :: "int option"
  sourcePath :: "jsstring option"
  sessionKey :: "jsstring option"
  metadata :: "(jsstring \<times> jsstring) list option"

definition DEFAULT_CHUNK_SIZE :: int where
  "DEFAULT_CHUNK_SIZE = 512"

definition DEFAULT_CHUNK_OVERLAP :: int where
  "DEFAULT_CHUNK_OVERLAP = 64"

text \<open>
  The two effects of \<open>chunkText\<close>: \<open>Date.now()\<close>, read once, and \<open>randomUUID()\<close>, drawn once
  for every chunk pushed. The environment gives the clock value and the sequence of UUIDs.
\<close>

record ChunkEnv =
  env_now :: int
  env_uuid :: "nat \<Rightarrow> jsstring"

subsection \<open>adjustChunkBoundary\<close>

text \<open>
  \<open>[...region.matchAll(/\n\n/g)]\<close>: the non-overlapping matches, scanned left to right; each
  match is given as (index, length).
\<close>

fun matchParagraph :: "jsstring \<Rightarrow> nat \<Rightarrow> (nat \<times> nat) list" where
  "matchParagraph (a # b # rest) i =
     (if a = 10 \<and> b = 10 then (i, 2) # matchParagraph rest (i + 2)
      else matchParagraph (b # rest) (i + 1))"
| "matchParagraph _ i = []"

text \<open>The matches of a one-character class.\<close>

definition matchClass :: "nat list \<Rightarrow> jsstring \<Rightarrow> (nat \<times> nat) list" where
  "matchClass cls s = map (\<lambda>i. (i, 1)) (filter (\<lambda>i. s ! i \<in> set cls) [0..<length s])"

text \<open>
  \<open>boundaryPatterns\<close>, in the source's order: paragraph, line break, CJK sentence
  punctuation (U+3002, U+FF01, U+FF1F), Latin sentence punctuation, and comma or semicolon
  (U+FF0C, comma, U+FF1B, semicolon).
\<close>

definition boundaryPatterns :: "(jsstring \<Rightarrow> (nat \<times> nat) list) list" where
  "boundaryPatterns =
     [\<lambda>s. matchParagraph s 0,
      matchClass [10],
      matchClass [12290, 65281, 65311],
      matchClass [46, 33, 63],
      matchClass [65292, 44, 65307, 59]]"

text \<open>
  The \<open>for\<close> loop over the patterns: the first pattern with a match decides, and its last
  match gives the boundary position relative to the search region.
\<close>

fun findBoundary :: "(jsstring \<Rightarrow> (nat \<times> nat) list) list \<Rightarrow> jsstring \<Rightarrow> nat option" where
  "findBoundary [] region = None"
| "findBoundary (p # ps) region =
     (case p region of
        [] \<Rightarrow> findBoundary ps region
      | m # ms \<Rightarrow> Some (fst (last (m # ms)) + snd (last (m # ms))))"

text \<open>The result \<open>{ text, adjustedEnd }\<close> is the pair (text, adjustedEnd).\<close>

definition adjustChunkBoundary :: "jsstring \<Rightarrow> jsstring \<Rightarrow> int \<Rightarrow> int \<Rightarrow> jsstring \<times> int" where
  "adjustChunkBoundary chunk fullText startOffset endOffset =
     (if endOffset \<ge> int (length fullText) then (chunk, endOffset)
      else
        let searchStart = (length chunk * 3) div 4;
            searchRegion = drop searchStart chunk
        in case findBoundary boundaryPatterns searchRegion of
             Some b \<Rightarrow> (take (searchStart + b) chunk, startOffset + int (searchStart + b))
           | None \<Rightarrow> (chunk, endOffset))"

subsection \<open>chunkText\<close>

definition mkChunk :: "ChunkEnv \<Rightarrow> nat \<Rightarrow> jsstring \<Rightarrow> jsstring \<Rightarrow> int \<Rightarrow> jsstring option \<Rightarrow>
    (jsstring \<times> jsstring) list option \<Rightarrow> TextChunk" where
  "mkChunk env n txt src off sk md =
     \<lparr>chunk_id = env_uuid env n, chunk_text = trim txt, chunk_sourcePath = src,
      chunk_offset = off, chunk_timestamp = env_now env, chunk_sessionKey = sk,
      chunk_metadata = md\<rparr>"

text \<open>
  One pass of the body of the \<open>while\<close> loop up to \<open>offset += step\<close>: the window is clipped to
  the text, adjusted to a boundary, and pushed unless it is blank after trimming.
\<close>

definition windowChunks :: "ChunkEnv \<Rightarrow> jsstring \<Rightarrow> int \<Rightarrow> jsstring \<Rightarrow> jsstring option \<Rightarrow>
    (jsstring \<times> jsstring) list option \<Rightarrow> int \<Rightarrow> TextChunk list \<Rightarrow> TextChunk list" where
  "windowChunks env text csize src sk md offset chunks =
     (let endPos = (if offset + csize > int (length text) then int (length text) else offset + csize);
          adjustedChunk = adjustChunkBoundary (slice text offset endPos) text offset endPos
      in if length (trim (fst adjustedChunk)) > 0
         then chunks @ [mkChunk env (length chunks) (fst adjustedChunk) src offset sk md]
         else chunks)"

text \<open>
  The sliding-window loop. It does not return when the step is not positive, so it is a
  partial function: \<open>None\<close> stands for a loop that never ends.
\<close>

partial_function (option) chunkLoop :: "ChunkEnv \<Rightarrow> jsstring \<Rightarrow> int \<Rightarrow> int \<Rightarrow> jsstring \<Rightarrow>
    jsstring option \<Rightarrow> (jsstring \<times> jsstring) list option \<Rightarrow> int \<Rightarrow> TextChunk list \<Rightarrow>
    TextChunk list option" where
  "chunkLoop env text csize step src sk md offset chunks =
     (if offset < int (length text)
      then (if offset + step \<ge> int (length text)
            then Some (windowChunks env text csize src sk md offset chunks)
            else chunkLoop env text csize step src sk md (offset + step)
                   (windowChunks env text csize src sk md offset chunks))
      else Some chunks)"

text \<open>The defaults of the destructured options.\<close>

definition optChunkSize :: "ChunkOptions \<Rightarrow> int" where
  "optChunkSize options = (case chunkSize options of Some n \<Rightarrow> n | None \<Rightarrow> DEFAULT_CHUNK_SIZE)"

definition optChunkOverlap :: "ChunkOptions \<Rightarrow> int" where
  "optChunkOverlap options =
     (case chunkOverlap options of Some n \<Rightarrow> n | None \<Rightarrow> DEFAULT_CHUNK_OVERLAP)"

definition optSourcePath :: "ChunkOptions \<Rightarrow> jsstring" where
  "optSourcePath options = (case sourcePath options of Some p \<Rightarrow> p | None \<Rightarrow> js ''unknown'')"

definition chunkText :: "ChunkEnv \<Rightarrow> jsstring \<Rightarrow> ChunkOptions \<Rightarrow> TextChunk list option" where
  "chunkText env text options =
     (if text = [] \<or> length (trim text) = 0 then Some []
      else if int (length text) \<le> optChunkSize options
      then Some [mkChunk env 0 text (optSourcePath options) 0 (sessionKey options)
                   (metadata options)]
      else chunkLoop env text (optChunkSize options)
             (optChunkSize options - optChunkOverlap options) (optSourcePath options)
             (sessionKey options) (metadata options) 0 [])"

section \<open>Vector store (utils/faiss-store.js)\<close>

text \<open>\<open>DIMENSION = getEmbeddingDimension()\<close>, which returns 384.\<close>

definition getEmbeddingDimension :: nat where
  "getEmbeddingDimension = 384"

definition DIMENSION :: nat where
  "DIMENSION = getEmbeddingDimension"

text \<open>
  An embedding is a \<open>Float32Array\<close>; the store reads only its length and hands it to the
  index. A flat inner-product index (\<open>IndexFlatIP\<close> of faiss-node) keeps the added vectors in
  insertion order, the label of a vector being its position: it is modelled by the list of
  its vectors, \<open>new IndexFlatIP(DIMENSION)\<close> by the empty list and \<open>add\<close> by appending.
\<close>

type_synonym embedding = "real list"

type_synonym IndexFlatIP = "embedding list"

datatype store_error =
    NotInitialized
  | DimensionMismatch nat
  | MkdirFailed
  | IndexFilesMissing
  | IndexReadFailed
  | MetadataParseFailed
  | MetadataTypeError
  | IndexSearchFailed

text \<open>
  The object's fields. \<open>documents\<close> is a JavaScript \<open>Map\<close> from id to chunk: an association
  list in insertion order, whose keys a \<open>Map\<close> keeps distinct. Ids are integers.
\<close>

record FaissVectorStore =
  index :: "IndexFlatIP option"
  documents :: "(int \<times> TextChunk) list"
  nextId :: int
  isDirty :: bool

text \<open>
  A persistence file as the store sees it: absent, present but rejected by
  \<open>IndexFlatIP.read\<close>, \<open>readFileSync\<close> or \<open>JSON.parse\<close>, or present with the content read
  from it.
\<close>

datatype 'a disk_file = Absent | Unreadable | Content 'a

text \<open>
  What \<open>JSON.parse\<close> gives for the metadata document, as far as \<open>load\<close> looks at it.
  The value is \<open>null\<close>, on which reading \<open>metadata.nextId\<close> throws a \<open>TypeError\<close>, or any
  other value, of which \<open>load\<close> reads the two properties \<open>nextId\<close> and \<open>documents\<close>. A
  primitive, an array or an object without them has both \<open>undefined\<close>.

  \<open>metadata.nextId\<close> is an integer number, or anything else (\<open>undefined\<close>, a fraction, a
  string, ...). \<open>metadata.documents\<close> is
  \<^item> \<open>EntryList\<close>: an array of \<open>[id, chunk]\<close> entries with integer ids, or \<open>undefined\<close> or
    \<open>null\<close>, for which \<open>new Map\<close> gives the empty map;
  \<^item> \<open>ForeignEntries\<close>: another iterable of entry objects, of which \<open>new Map\<close> makes a map
    that is no map from numbers to chunks;
  \<^item> \<open>NotEntries\<close>: a value on which \<open>new Map\<close> throws a \<open>TypeError\<close>, not iterable or
    with an item that is no object.
\<close>

datatype nextId_json = IntegerId int | OtherId

datatype documents_json = EntryList "(int \<times> TextChunk) list" | ForeignEntries | NotEntries

datatype metadata_json = JsonNull | JsonValue nextId_json documents_json

text \<open>
  The directory of the index file: it exists, or it is missing and \<open>mkdirSync\<close> creates
  it, or it is missing and \<open>mkdirSync\<close> throws.
\<close>

datatype dir_state = DirPresent | DirCreatable | DirBlocked

record StoreFiles =
  indexDir :: dir_state
  indexFile :: "IndexFlatIP disk_file"
  metaFile :: "metadata_json disk_file"

definition existsSync :: "'a disk_file \<Rightarrow> bool" where
  "existsSync f \<longleftrightarrow> f \<noteq> Absent"

text \<open>\<open>new Map(entries)\<close>: a later entry with the same key replaces the value of the earlier.\<close>

definition newMap :: "(int \<times> TextChunk) list \<Rightarrow> (int \<times> TextChunk) list" where
  "newMap entries = foldl (\<lambda>m (k, v). AList.update k v m) [] entries"

text \<open>
  The state of the object after \<open>load\<close> or \<open>initialize\<close>. The fields are declared as
  \<open>nextId: number\<close> and \<open>documents: Map<number, TextChunk>\<close>; a metadata document of another
  shape leaves values of other types in them, and the object is then \<open>Untyped\<close>: the
  record does not describe it.
\<close>

datatype store_state = Typed FaissVectorStore | Untyped

text \<open>
  Every method returns its result, or the error thrown, together with the state of the
  object afterwards: a \<open>throw\<close> does not undo the assignments made before it. The paths of
  the two files are fixed at construction, so a method reads the files themselves.

  \<open>load\<close> assigns \<open>index\<close>, then \<open>nextId\<close>, then \<open>documents\<close>, then \<open>isDirty\<close>, and each of
  the reads in between can throw.
\<close>

definition load :: "FaissVectorStore \<Rightarrow> StoreFiles \<Rightarrow> (store_error + unit) \<times> store_state" where
  "load s fs =
     (if \<not> existsSync (indexFile fs) \<or> \<not> existsSync (metaFile fs)
      then (Inl IndexFilesMissing, Typed s)
      else case indexFile fs of
             Content idx \<Rightarrow>
               (case metaFile fs of
                  Content JsonNull \<Rightarrow> (Inl MetadataTypeError, Typed (s\<lparr>index := Some idx\<rparr>))
                | Content (JsonValue (IntegerId n) (EntryList entries)) \<Rightarrow>
                    (Inr (), Typed (s\<lparr>index := Some idx, nextId := n,
                                      documents := newMap entries, isDirty := False\<rparr>))
                | Content (JsonValue (IntegerId n) ForeignEntries) \<Rightarrow> (Inr (), Untyped)
                | Content (JsonValue (IntegerId n) NotEntries) \<Rightarrow>
                    (Inl MetadataTypeError, Typed (s\<lparr>index := Some idx, nextId := n\<rparr>))
                | Content (JsonValue OtherId NotEntries) \<Rightarrow> (Inl MetadataTypeError, Untyped)
                | Content (JsonValue OtherId _) \<Rightarrow> (Inr (), Untyped)
                | _ \<Rightarrow> (Inl MetadataParseFailed, Typed (s\<lparr>index := Some idx\<rparr>)))
           | _ \<Rightarrow> (Inl IndexReadFailed, Typed s))"

text \<open>
  \<open>initialize\<close>. Its result is the message it logs: that the index was loaded, or that a
  new index was created. It first creates the directory of the index file when that is
  missing, which can throw.
\<close>

datatype init_log = IndexLoaded | IndexCreated

definition initialize :: "FaissVectorStore \<Rightarrow> StoreFiles \<Rightarrow> (store_error + init_log) \<times> store_state" where
  "initialize s fs =
     (if indexDir fs = DirBlocked then (Inl MkdirFailed, Typed s)
      else if existsSync (indexFile fs) \<and> existsSync (metaFile fs)
      then (case load s fs of
              (Inr u, st) \<Rightarrow> (Inr IndexLoaded, st)
            | (Inl e, st) \<Rightarrow> (Inl e, st))
      else (Inr IndexCreated, Typed (s\<lparr>index := Some []\<rparr>)))"

text \<open>The object as the constructor leaves it.\<close>

definition newStore :: FaissVectorStore where
  "newStore = \<lparr>index = None, documents = [], nextId = 0, isDirty = False\<rparr>"

definition add :: "FaissVectorStore \<Rightarrow> TextChunk \<Rightarrow> embedding \<Rightarrow> (store_error + int) \<times> FaissVectorStore" where
  "add s chunk emb =
     (case index s of
        None \<Rightarrow> (Inl NotInitialized, s)
      | Some idx \<Rightarrow>
          if length emb \<noteq> DIMENSION then (Inl (DimensionMismatch (length emb)), s)
          else (Inr (nextId s),
                s\<lparr>nextId := nextId s + 1, index := Some (idx @ [emb]),
                  documents := AList.update (nextId s) chunk (documents s), isDirty := True\<rparr>))"

text \<open>The \<open>for\<close> loop of \<open>addBatch\<close>, with the list \<open>ids\<close> built so far.\<close>

fun addBatchLoop :: "FaissVectorStore \<Rightarrow> IndexFlatIP \<Rightarrow> (TextChunk \<times> embedding) list \<Rightarrow> int list \<Rightarrow>
    FaissVectorStore \<times> int list" where
  "addBatchLoop s idx [] ids = (s, ids)"
| "addBatchLoop s idx ((chunk, emb) # items) ids =
     (if length emb \<noteq> DIMENSION then addBatchLoop s idx items ids
      else addBatchLoop
             (s\<lparr>nextId := nextId s + 1, index := Some (idx @ [emb]),
                documents := AList.update (nextId s) chunk (documents s)\<rparr>)
             (idx @ [emb]) items (ids @ [nextId s]))"

definition addBatch :: "FaissVectorStore \<Rightarrow> (TextChunk \<times> embedding) list \<Rightarrow>
    (store_error + int list) \<times> FaissVectorStore" where
  "addBatch s items =
     (case index s of
        None \<Rightarrow> (Inl NotInitialized, s)
      | Some idx \<Rightarrow>
          (Inr (snd (addBatchLoop s idx items [])),
           (fst (addBatchLoop s idx items []))\<lparr>isDirty := True\<rparr>))"

record SearchResult =
  result_id :: int
  distance :: real
  result_chunk :: TextChunk

text \<open>
  The loop of \<open>search\<close> over the answer of the index, given as the pairs
  (\<open>labels[i]\<close>, \<open>distances[i]\<close>) of its two arrays.
\<close>

fun collectResults :: "(int \<times> TextChunk) list \<Rightarrow> (int \<times> real) list \<Rightarrow> SearchResult list" where
  "collectResults docs [] = []"
| "collectResults docs ((label, score) # rest) =
     (if label < 0 then collectResults docs rest
      else case map_of docs label of
             None \<Rightarrow> collectResults docs rest
           | Some chunk \<Rightarrow>
               \<lparr>result_id = label, distance = 1 - score, result_chunk = chunk\<rparr>
                 # collectResults docs rest)"

definition getDocumentCount :: "FaissVectorStore \<Rightarrow> nat" where
  "getDocumentCount s = length (documents s)"

text \<open>
  \<open>search\<close>. The search of the index itself belongs to the faiss library and is the
  parameter \<open>indexSearch\<close>: given the index, the query and the number of neighbours it throws
  or returns labels with their inner products. The number \<open>k\<close> of results asked for is a
  natural number.
\<close>

definition search :: "(IndexFlatIP \<Rightarrow> embedding \<Rightarrow> nat \<Rightarrow> store_error + (int \<times> real) list) \<Rightarrow>
    FaissVectorStore \<Rightarrow> embedding \<Rightarrow> nat \<Rightarrow> store_error + SearchResult list" where
  "search indexSearch s queryEmbedding k =
     (case index s of
        None \<Rightarrow> Inl NotInitialized
      | Some idx \<Rightarrow>
          if getDocumentCount s = 0 then Inr []
          else
            let actualK = min k (getDocumentCount s)
            in case indexSearch idx queryEmbedding actualK of
                 Inl e \<Rightarrow> Inl e
               | Inr results \<Rightarrow> Inr (collectResults (documents s) results))"

definition clear :: "FaissVectorStore \<Rightarrow> FaissVectorStore" where
  "clear s = s\<lparr>index := Some [], documents := [], nextId := 0, isDirty := True\<rparr>"





section \<open>Indexing task queue (components/faiss-vectorizer.js)\<close>

datatype TaskType = TextTask | FileTask | ConversationTask

text \<open>The argument of \<open>addTask\<close>: a task without \<open>id\<close> and \<open>createdAt\<close>.\<close>

record TaskInput =
  task_type :: TaskType
  task_content :: jsstring
  task_sourcePath :: jsstring
  task_sessionKey :: "jsstring option"
  task_metadata :: "(jsstring \<times> jsstring) list option"
  priority :: int

record IndexTask = TaskInput +
  task_id :: jsstring
  createdAt :: int

text \<open>
  \<open>Array.prototype.sort\<close> with a comparison function. The sort is stable (ECMAScript 2019),
  so for a consistent comparison its result is the one that insertion sort gives: an element
  goes before the first element it does not compare greater than.
\<close>

fun insertSorted :: "('a \<Rightarrow> 'a \<Rightarrow> int) \<Rightarrow> 'a \<Rightarrow> 'a list \<Rightarrow> 'a list" where
  "insertSorted cmp x [] = [x]"
| "insertSorted cmp x (y # ys) = (if cmp x y \<le> 0 then x # y # ys else y # insertSorted cmp x ys)"

definition sortBy :: "('a \<Rightarrow> 'a \<Rightarrow> int) \<Rightarrow> 'a list \<Rightarrow> 'a list" where
  "sortBy cmp xs = foldr (insertSorted cmp) xs []"

text \<open>The comparison \<open>(a, b) => b.priority - a.priority\<close>.\<close>

definition byPriority :: "IndexTask \<Rightarrow> IndexTask \<Rightarrow> int" where
  "byPriority a b = priority b - priority a"

text \<open>Decimal digits of a number, as in a template literal.\<close>

fun decimal :: "nat \<Rightarrow> jsstring" where
  "decimal n = (if n < 10 then [48 + n] else decimal (n div 10) @ [48 + n mod 10])"

text \<open>
  What \<open>addTask\<close> reads from its environment: \<open>Date.now()\<close> for the id, the six characters
  taken from \<open>Math.random().toString(36)\<close>, and \<open>Date.now()\<close> for \<open>createdAt\<close>.
\<close>

record TaskEnv =
  idNow :: nat
  randomSuffix :: jsstring
  createdNow :: int

record FaissVectorizerService =
  taskQueue :: "IndexTask list"
  isProcessing :: bool

definition fullTask :: "TaskEnv \<Rightarrow> TaskInput \<Rightarrow> IndexTask" where
  "fullTask env task =
     \<lparr>task_type = task_type task, task_content = task_content task,
      task_sourcePath = task_sourcePath task, task_sessionKey = task_sessionKey task,
      task_metadata = task_metadata task, priority = priority task,
      task_id = js ''task-'' @ decimal (idNow env) @ js ''-'' @ randomSuffix env,
      createdAt = createdNow env\<rparr>"

definition addTask :: "TaskEnv \<Rightarrow> FaissVectorizerService \<Rightarrow> TaskInput \<Rightarrow>
    jsstring \<times> FaissVectorizerService" where
  "addTask env svc task =
     (task_id (fullTask env task),
      svc\<lparr>taskQueue := sortBy byPriority (taskQueue svc @ [fullTask env task])\<rparr>)"

text \<open>A caller's sequence of \<open>addTask\<close> calls, each with its environment.\<close>

fun addTasks :: "FaissVectorizerService \<Rightarrow> (TaskEnv \<times> TaskInput) list \<Rightarrow> FaissVectorizerService" where
  "addTasks svc [] = svc"
| "addTasks svc ((env, task) # calls) = addTasks (snd (addTask env svc task)) calls"

section \<open>Retrieval hook (hooks/rag-inject/handler.js)\<close>

definition MIN_QUERY_LENGTH :: nat where
  "MIN_QUERY_LENGTH = 5"

definition CACHE_TTL :: int where
  "CACHE_TTL = 5000"

definition ALLOWED_AGENTS :: "jsstring list" where
  "ALLOWED_AGENTS = [js ''main'', js ''main-lite'']"

text \<open>
  The filter of \<open>formatRagResultsXml\<close> with its set \<open>seen\<close>: a result is kept unless the
  first 200 code units of its trimmed text were seen before.
\<close>

fun dedupe :: "jsstring list \<Rightarrow> SearchResult list \<Rightarrow> SearchResult list" where
  "dedupe seen [] = []"
| "dedupe seen (r # rs) =
     (if take 200 (trim (chunk_text (result_chunk r))) \<in> set seen then dedupe seen rs
      else r # dedupe (take 200 (trim (chunk_text (result_chunk r))) # seen) rs)"

text \<open>
  \<open>sourcePath.replace(/^.*\/\.openclaw\/workspace\//, '')\<close>: the pattern is anchored at the
  start, \<open>.\<close> matches no line terminator and \<open>.*\<close> is greedy, so the match ends with the last
  occurrence of the directory name within the first line, and is removed.
\<close>

definition isLineTerminator :: "nat \<Rightarrow> bool" where
  "isLineTerminator c \<longleftrightarrow> c = 10 \<or> c = 13 \<or> c = 8232 \<or> c = 8233"

definition stripWorkspace :: "jsstring \<Rightarrow> jsstring" where
  "stripWorkspace s =
     (let line = takeWhile (\<lambda>c. \<not> isLineTerminator c) s;
          needle = js ''/.openclaw/workspace/''
      in case filter (\<lambda>p. take (length needle) (drop p line) = needle)
                (rev [0..<Suc (length line)]) of
           [] \<Rightarrow> s
         | p # _ \<Rightarrow> drop (p + length needle) s)"

text \<open>\<open>Array.prototype.join\<close>.\<close>

fun join :: "jsstring \<Rightarrow> jsstring list \<Rightarrow> jsstring" where
  "join sep [] = []"
| "join sep [x] = x"
| "join sep (x # y # ys) = x @ sep @ join sep (y # ys)"

text \<open>
  One entry of the listing. \<open>toFixed2\<close> stands for \<open>Number.prototype.toFixed(2)\<close>, the
  rendering of a floating-point number, which is a parameter.
\<close>

definition formatItem :: "(real \<Rightarrow> jsstring) \<Rightarrow> nat \<Rightarrow> SearchResult \<Rightarrow> jsstring" where
  "formatItem toFixed2 idx r =
     js ''['' @ decimal (idx + 1) @ js ''] ('' @ [20358, 28304] @ js '': '' @
     stripWorkspace (chunk_sourcePath (result_chunk r)) @ js '', '' @ [30456, 38364, 24230] @
     js '': '' @ toFixed2 (1 - distance r) @ js '')'' @ [10] @ trim (chunk_text (result_chunk r))"

definition formatRagResultsXml :: "(real \<Rightarrow> jsstring) \<Rightarrow> SearchResult list \<Rightarrow> jsstring" where
  "formatRagResultsXml toFixed2 results =
     (if length results = 0 then []
      else if length (dedupe [] results) = 0 then []
      else js ''<historical_memory>'' @ [10] @
           [20197, 19979, 26159, 33287, 30070, 21069, 23565, 35441, 30456, 38364, 30340, 27511,
            21490, 35352, 25014, 29255, 27573, 65306] @ [10, 10] @
           join [10, 10]
             (map (\<lambda>(idx, r). formatItem toFixed2 idx r)
                (zip [0..<length (dedupe [] results)] (dedupe [] results))) @
           [10] @ js ''</historical_memory>'')"

text \<open>
  A message of the event. Its content is missing or falsy, a string, or another truthy
  value, which is given by its \<open>JSON.stringify\<close> rendering.
\<close>

datatype MsgContent = NoContent | StringContent jsstring | OtherContent jsstring

record Message =
  msg_role :: jsstring
  msg_content :: MsgContent

text \<open>\<open>event.messages\<close>, or \<open>None\<close> when it is missing or not an array.\<close>

type_synonym Event = "Message list option"

text \<open>The loop of \<open>extractUserQuery\<close>, over the messages from the last to the first.\<close>

fun lastUserContent :: "Message list \<Rightarrow> jsstring option" where
  "lastUserContent [] = None"
| "lastUserContent (m # ms) =
     (if msg_role m = js ''user'' \<and> msg_content m \<noteq> NoContent \<and> msg_content m \<noteq> StringContent []
      then (case msg_content m of
              StringContent c \<Rightarrow> Some c
            | OtherContent j \<Rightarrow> Some j
            | NoContent \<Rightarrow> None)
      else lastUserContent ms)"

definition extractUserQuery :: "Event \<Rightarrow> jsstring option" where
  "extractUserQuery event = (case event of None \<Rightarrow> None | Some msgs \<Rightarrow> lastUserContent (rev msgs))"

text \<open>
  The module's variables \<open>lastQuery\<close>, \<open>lastResult\<close> and \<open>lastTimestamp\<close>, and a trace of the
  calls of \<open>performRagRetrieval\<close>, the only way from the handler to the embedding provider
  and to the vector store.
\<close>

record HandlerState =
  lastQuery :: "jsstring option"
  lastResult :: "jsstring option"
  lastTimestamp :: int
  retrievals :: "jsstring list"

definition initialHandlerState :: HandlerState where
  "initialHandlerState = \<lparr>lastQuery = None, lastResult = None, lastTimestamp = 0, retrievals = []\<rparr>"

text \<open>A string or \<open>null\<close> as a condition.\<close>

definition truthy :: "jsstring option \<Rightarrow> bool" where
  "truthy v \<longleftrightarrow> (case v of None \<Rightarrow> False | Some x \<Rightarrow> x \<noteq> [])"

text \<open>
  The handler. \<open>performRagRetrieval\<close> gives \<open>null\<close> or the results of the search; \<open>now\<close> is
  the value of \<open>Date.now()\<close> at the cache check. The result is \<open>prependContext\<close>, or \<open>None\<close>
  when the handler returns nothing.
\<close>

definition handler :: "(real \<Rightarrow> jsstring) \<Rightarrow> (jsstring \<Rightarrow> SearchResult list option) \<Rightarrow>
    HandlerState \<Rightarrow> Event \<Rightarrow> jsstring \<Rightarrow> int \<Rightarrow> jsstring option \<times> HandlerState" where
  "handler toFixed2 performRagRetrieval st event agentId now =
     (if agentId \<notin> set ALLOWED_AGENTS then (None, st)
      else case extractUserQuery event of
             None \<Rightarrow> (None, st)
           | Some userQuery \<Rightarrow>
               if userQuery = [] \<or> length userQuery < MIN_QUERY_LENGTH then (None, st)
               else if lastQuery st = Some userQuery \<and> truthy (lastResult st) \<and>
                       now - lastTimestamp st < CACHE_TTL
               then (lastResult st, st)
               else
                 let st1 = st\<lparr>retrievals := retrievals st @ [userQuery]\<rparr>
                 in case performRagRetrieval userQuery of
                      None \<Rightarrow> (None, st1)
                    | Some results \<Rightarrow>
                        if length results = 0 then (None, st1)
                        else (Some (formatRagResultsXml toFixed2 results),
                              st1\<lparr>lastQuery := Some userQuery,
                                  lastResult := Some (formatRagResultsXml toFixed2 results),
                                  lastTimestamp := now\<rparr>))"

section \<open>Retrieval gate (components/rag-injector.js)\<close>

text \<open>
  \<open>toLowerCase\<close>. On a string of ASCII and white-space code units it maps \<open>A\<close>..\<open>Z\<close> to
  \<open>a\<close>..\<open>z\<close> and changes nothing else; on other strings it follows the Unicode case
  mappings, which are the parameter \<open>lowerUnicode\<close>.
\<close>

definition asciiLower :: "nat \<Rightarrow> nat" where
  "asciiLower c = (if 65 \<le> c \<and> c \<le> 90 then c + 32 else c)"

definition toLowerCase :: "(jsstring \<Rightarrow> jsstring) \<Rightarrow> jsstring \<Rightarrow> jsstring" where
  "toLowerCase lowerUnicode s =
     (if \<forall>c\<in>set s. c < 128 \<or> isWhiteSpace c then map asciiLower s else lowerUnicode s)"

text \<open>
  A regular expression with the \<open>u\<close> flag reads code points: a high surrogate followed by a
  low surrogate is one code point.
\<close>

fun codePoints :: "jsstring \<Rightarrow> nat list" where
  "codePoints (hi # lo # rest) =
     (if 55296 \<le> hi \<and> hi \<le> 56319 \<and> 56320 \<le> lo \<and> lo \<le> 57343
      then (65536 + (hi - 55296) * 1024 + (lo - 56320)) # codePoints rest
      else hi # codePoints (lo # rest))"
| "codePoints s = s"

text \<open>
  The Unicode property \<open>Emoji\<close>. Below U+0080 it holds of the number sign, the asterisk and
  the digits \<open>0\<close>..\<open>9\<close> (emoji-data.txt of the Unicode Character Database); the rest of the
  table is the parameter \<open>emojiTable\<close>.
\<close>

definition isEmoji :: "(nat \<Rightarrow> bool) \<Rightarrow> nat \<Rightarrow> bool" where
  "isEmoji emojiTable c =
     (if c < 128 then c = 35 \<or> c = 42 \<or> (48 \<le> c \<and> c \<le> 57) else emojiTable c)"

text \<open>\<open>/^[\p{Emoji}\s]+$/u.test(s)\<close>.\<close>

definition emojiOnly :: "(nat \<Rightarrow> bool) \<Rightarrow> jsstring \<Rightarrow> bool" where
  "emojiOnly emojiTable s \<longleftrightarrow>
     codePoints s \<noteq> [] \<and> list_all (\<lambda>c. isEmoji emojiTable c \<or> isWhiteSpace c) (codePoints s)"

definition greetings :: "jsstring list" where
  "greetings =
     [js ''hi'', js ''hello'', js ''hey'', [20320, 22909], [21992], [21704, 22217],
      js ''good morning'', js ''good evening'', js ''good night'',
      [26089, 23433], [21320, 23433], [26202, 23433], [26089], [26202]]"

definition startsWithSlash :: "jsstring \<Rightarrow> bool" where
  "startsWithSlash s \<longleftrightarrow> (case s of [] \<Rightarrow> False | c # _ \<Rightarrow> c = 47)"

definition shouldPerformRag :: "(jsstring \<Rightarrow> jsstring) \<Rightarrow> (nat \<Rightarrow> bool) \<Rightarrow> jsstring \<Rightarrow> bool" where
  "shouldPerformRag lowerUnicode emojiTable query =
     (let trimmed = toLowerCase lowerUnicode (trim query)
      in if startsWithSlash trimmed then False
         else if length trimmed < 5 then False
         else if trimmed \<in> set greetings then False
         else if emojiOnly emojiTable trimmed then False
         else True)"

section \<open>Notions used in the statements\<close>

text \<open>The items of a batch that pass the dimension check, in the order of the batch.\<close>

definition validItems :: "(TextChunk \<times> embedding) list \<Rightarrow> (TextChunk \<times> embedding) list" where
  "validItems items = filter (\<lambda>item. length (snd item) = DIMENSION) items"

text \<open>The map after \<open>documents.set(k, v)\<close> for each of the entries, in order.\<close>

definition setAll :: "(int \<times> TextChunk) list \<Rightarrow> (int \<times> TextChunk) list \<Rightarrow> (int \<times> TextChunk) list" where
  "setAll docs entries = foldl (\<lambda>m (k, v). AList.update k v m) docs entries"

text \<open>Sample data: a chunk with a given text, an environment of the chunker, a vector of the
  configured dimension, a task and its environment.\<close>

definition sampleChunk :: "jsstring \<Rightarrow> TextChunk" where
  "sampleChunk body =
     \<lparr>chunk_id = js ''c'', chunk_text = body, chunk_sourcePath = js ''memory/notes.md'',
      chunk_offset = 0, chunk_timestamp = 0, chunk_sessionKey = None, chunk_metadata = None\<rparr>"

definition sampleChunkEnv :: ChunkEnv where
  "sampleChunkEnv = \<lparr>env_now = 1700000000000, env_uuid = (\<lambda>n. js ''uuid-'' @ decimal n)\<rparr>"

definition sampleVector :: embedding where
  "sampleVector = replicate 384 0"

definition sampleTask :: "int \<Rightarrow> TaskInput" where
  "sampleTask p =
     \<lparr>task_type = TextTask, task_content = js ''note'', task_sourcePath = js ''memory/notes.md'',
      task_sessionKey = None, task_metadata = None, priority = p\<rparr>"

definition sampleTaskEnv :: "nat \<Rightarrow> TaskEnv" where
  "sampleTaskEnv n = \<lparr>idNow = n, randomSuffix = js ''k3x9qa'', createdNow = int n\<rparr>"

text \<open>
  The concatenation of the non-overlap regions of successive chunks, in the words of the
  specification: the first chunk whole, and every later chunk without the code units it
  shares, by the declared overlap, with the chunk before it.
\<close>

definition nonOverlapText :: "nat \<Rightarrow> TextChunk list \<Rightarrow> jsstring" where
  "nonOverlapText overlap chunks =
     (case chunks of
        [] \<Rightarrow> []
      | c # cs \<Rightarrow> chunk_text c @ concat (map (\<lambda>d. drop overlap (chunk_text d)) cs))"

text \<open>
  The chunks that the windows at the given cursor positions add, one window after the
  other, to the chunks collected before.
\<close>

definition scanWindows :: "ChunkEnv \<Rightarrow> jsstring \<Rightarrow> int \<Rightarrow> jsstring \<Rightarrow> jsstring option \<Rightarrow>
    (jsstring \<times> jsstring) list option \<Rightarrow> int list \<Rightarrow> TextChunk list \<Rightarrow> TextChunk list" where
  "scanWindows env body csize src sk md cursors chunks =
     foldl (\<lambda>acc cursor. windowChunks env body csize src sk md cursor acc) chunks cursors"

text \<open>
  The cursor positions \<open>offset\<close>, \<open>offset + step\<close>, ..., \<open>n\<close> of them, and the number of
  positions from \<open>offset\<close> on that lie below the length of the text.
\<close>

definition cursorsFrom :: "int \<Rightarrow> int \<Rightarrow> nat \<Rightarrow> int list" where
  "cursorsFrom offset step n = map (\<lambda>k. offset + int k * step) [0..<n]"

definition passes :: "int \<Rightarrow> int \<Rightarrow> int \<Rightarrow> nat" where
  "passes len step offset = nat ((len - offset + step - 1) div step)"


text \<open>
  A call of the handler, given by what it meets: the retrieval, the event, the agent and
  the clock. A call stores a result when it completes a retrieval with results that are not
  empty: it calls \<open>performRagRetrieval\<close> and returns a context. \<open>handlerCalls\<close> is the state
  after a sequence of calls, and \<open>noneStores\<close> says that no call of the sequence stores a
  result.
\<close>

type_synonym HandlerCall = "(jsstring \<Rightarrow> SearchResult list option) \<times> Event \<times> jsstring \<times> int"

definition storesResult :: "(real \<Rightarrow> jsstring) \<Rightarrow> HandlerState \<Rightarrow> HandlerCall \<Rightarrow> bool" where
  "storesResult toFixed2 st call =
     (case call of (rag, event, agentId, now) \<Rightarrow>
        retrievals (snd (handler toFixed2 rag st event agentId now)) \<noteq> retrievals st \<and>
        fst (handler toFixed2 rag st event agentId now) \<noteq> None)"

fun handlerCalls :: "(real \<Rightarrow> jsstring) \<Rightarrow> HandlerState \<Rightarrow> HandlerCall list \<Rightarrow> HandlerState" where
  "handlerCalls toFixed2 st [] = st"
| "handlerCalls toFixed2 st ((rag, event, agentId, now) # calls) =
     handlerCalls toFixed2 (snd (handler toFixed2 rag st event agentId now)) calls"

fun noneStores :: "(real \<Rightarrow> jsstring) \<Rightarrow> HandlerState \<Rightarrow> HandlerCall list \<Rightarrow> bool" where
  "noneStores toFixed2 st [] = True"
| "noneStores toFixed2 st ((rag, event, agentId, now) # calls) =
     (\<not> storesResult toFixed2 st (rag, event, agentId, now) \<and>
      noneStores toFixed2 (snd (handler toFixed2 rag st event agentId now)) calls)"

text \<open>An ASCII digit or a white-space code unit.\<close>

definition digitOrSpace :: "nat \<Rightarrow> bool" where
  "digitOrSpace c \<longleftrightarrow> (48 \<le> c \<and> c \<le> 57) \<or> isWhiteSpace c"

text \<open>Sample data: a query, an event that carries it, and the results of its retrieval.\<close>

definition sampleQuery :: jsstring where
  "sampleQuery = js ''what did we decide about caching?''"

definition sampleEvent :: Event where
  "sampleEvent = Some [\<lparr>msg_role = js ''assistant'', msg_content = StringContent (js ''hello'')\<rparr>,
                       \<lparr>msg_role = js ''user'', msg_content = StringContent sampleQuery\<rparr>]"

definition sampleResults :: "SearchResult list" where
  "sampleResults =
     [\<lparr>result_id = 0, distance = 1 / 4, result_chunk = sampleChunk (js ''We decided to use X for caching'')\<rparr>]"

definition sampleToFixed :: "real \<Rightarrow> jsstring" where
  "sampleToFixed x = js ''0.75''"

text \<open>Sample data: another query, its event and its results.\<close>

definition otherQuery :: jsstring where
  "otherQuery = js ''which database did we pick?''"

definition otherEvent :: Event where
  "otherEvent = Some [\<lparr>msg_role = js ''user'', msg_content = StringContent otherQuery\<rparr>]"

definition otherResults :: "SearchResult list" where
  "otherResults =
     [\<lparr>result_id = 1, distance = 1 / 2, result_chunk = sampleChunk (js ''We picked SQLite'')\<rparr>]"

section \<open>Properties of the chunker\<close>

text \<open>
  The number of cursor positions below the length of the text: none when the cursor has
  reached the end, and one more than from the next position otherwise.
\<close>

lemma passes_done: "0 < step \<Longrightarrow> len \<le> offset \<Longrightarrow> passes len step offset = 0"
proof -
  assume a: "0 < step" "len \<le> offset"
  then have "len - offset + step - 1 \<le> step - 1" by simp
  then have "(len - offset + step - 1) div step \<le> (step - 1) div step"
    using a(1) by (rule zdiv_mono1)
  moreover have "(step - 1) div step = 0" using a(1) by (simp add: div_pos_pos_trivial)
  ultimately show ?thesis by (simp add: passes_def)
qed

lemma passes_quotient:
  assumes "0 < (step::int)" "offset < len"
  shows "1 \<le> (len - offset + step - 1) div step"
proof -
  have "step \<le> len - offset + step - 1" using assms(2) by linarith
  then have "step div step \<le> (len - offset + step - 1) div step"
    using assms(1) by (rule zdiv_mono1)
  then show ?thesis using assms(1) by simp
qed

lemma passes_step:
  assumes "0 < step" "offset < len"
  shows "passes len step offset = Suc (passes len step (offset + step))"
proof -
  define x where "x = len - (offset + step) + step - 1"
  have h: "len - offset + step - 1 = x + step" by (simp add: x_def)
  have "(x + step) div step = x div step + 1" using assms(1) by simp
  then have q: "(len - offset + step - 1) div step = x div step + 1" by (simp only: h)
  have "0 \<le> x" using assms(2) by (simp add: x_def)
  then have "0 \<le> x div step" using assms(1) by (simp add: pos_imp_zdiv_nonneg_iff)
  then have "nat (x div step + 1) = Suc (nat (x div step))" by (simp add: nat_add_distrib)
  then have "nat ((len - offset + step - 1) div step) = Suc (nat (x div step))" by (simp only: q)
  then show ?thesis by (simp only: passes_def x_def)
qed

lemma passes_bounds:
  assumes "0 < step" "offset < len"
  shows "0 < passes len step offset \<and>
         offset + (int (passes len step offset) - 1) * step < len \<and>
         len \<le> offset + int (passes len step offset) * step"
proof -
  let ?a = "len - offset + step - 1"
  have q1: "1 \<le> ?a div step" using assms by (rule passes_quotient)
  have e: "?a = ?a div step * step + ?a mod step" by simp
  have m: "0 \<le> ?a mod step" "?a mod step < step"
    using assms(1) by simp_all
  have p: "int (passes len step offset) = ?a div step" using q1 by (simp add: passes_def)
  have "(?a div step - 1) * step = ?a div step * step - step" by (simp add: algebra_simps)
  then have "len - offset \<le> ?a div step * step" "(?a div step - 1) * step < len - offset"
    using e m by linarith+
  then show ?thesis using p q1 by (simp add: passes_def)
qed

lemma cursorsFrom_Suc:
  "cursorsFrom offset step (Suc n) = offset # cursorsFrom (offset + step) step n"
proof -
  have "[0..<Suc n] = 0 # map Suc [0..<n]"
    by (simp add: upt_conv_Cons map_Suc_upt del: upt_Suc)
  then have "cursorsFrom offset step (Suc n) =
      (offset + int 0 * step) # map (\<lambda>k. offset + int (Suc k) * step) [0..<n]"
    by (simp only: cursorsFrom_def list.map map_map comp_def)
  then show ?thesis by (simp add: cursorsFrom_def algebra_simps)
qed

lemma chunkLoop_scans:
  assumes "0 < step"
  shows "chunkLoop env body csize step src sk md offset chunks =
           Some (scanWindows env body csize src sk md
                   (cursorsFrom offset step (passes (int (length body)) step offset)) chunks)"
proof (induction "nat (int (length body) - offset)" arbitrary: offset chunks rule: less_induct)
  case less
  show ?case
  proof (cases "offset < int (length body)")
    case False
    then have "passes (int (length body)) step offset = 0" using assms by (simp add: passes_done)
    moreover have "chunkLoop env body csize step src sk md offset chunks = Some chunks"
      using False by (subst chunkLoop.simps) simp
    ultimately show ?thesis by (simp add: scanWindows_def cursorsFrom_def)
  next
    case inside: True
    let ?w = "windowChunks env body csize src sk md offset chunks"
    have ps: "passes (int (length body)) step offset =
                Suc (passes (int (length body)) step (offset + step))"
      using assms inside by (rule passes_step)
    show ?thesis
    proof (cases "int (length body) \<le> offset + step")
      case True
      then have "passes (int (length body)) step (offset + step) = 0"
        using assms by (simp add: passes_done)
      moreover have "chunkLoop env body csize step src sk md offset chunks = Some ?w"
        using inside True by (subst chunkLoop.simps) simp
      ultimately show ?thesis using ps by (simp add: scanWindows_def cursorsFrom_def)
    next
      case False
      then have "nat (int (length body) - (offset + step)) < nat (int (length body) - offset)"
        using assms inside by simp
      from less [OF this, of ?w]
      have "chunkLoop env body csize step src sk md (offset + step) ?w =
              Some (scanWindows env body csize src sk md
                      (cursorsFrom (offset + step) step
                         (passes (int (length body)) step (offset + step))) ?w)" .
      moreover have "chunkLoop env body csize step src sk md offset chunks =
                       chunkLoop env body csize step src sk md (offset + step) ?w"
        using inside False by (subst chunkLoop.simps) simp
      ultimately show ?thesis
        by (simp add: ps cursorsFrom_Suc scanWindows_def)
    qed
  qed
qed

text \<open>
  Claim C6. Whenever the step \<open>chunkSize - chunkOverlap\<close> is positive, \<open>chunkText\<close> returns,
  for every text. On a text longer than the chunk size the loop passes exactly the cursor
  positions 0, \<open>step\<close>, 2 \<open>step\<close>, ..., (\<open>n\<close> - 1) \<open>step\<close>, in this order and each once, where
  (\<open>n\<close> - 1) \<open>step\<close> is the last of them below the length of the text: the cursor grows by
  \<open>step\<close> in every pass until it reaches the end of the text, and the chunks returned are
  the chunks of the windows at these positions.
\<close>

theorem chunkText_terminates:
  assumes "0 < optChunkSize options - optChunkOverlap options"
  shows "(\<exists>chunks. chunkText env body options = Some chunks) \<and>
         (trim body \<noteq> [] \<and> optChunkSize options < int (length body) \<longrightarrow>
            (\<exists>n. 0 < n \<and>
               (int n - 1) * (optChunkSize options - optChunkOverlap options) < int (length body) \<and>
               int (length body) \<le> int n * (optChunkSize options - optChunkOverlap options) \<and>
               chunkText env body options =
                 Some (scanWindows env body (optChunkSize options) (optSourcePath options)
                         (sessionKey options) (metadata options)
                         (map (\<lambda>k. int k * (optChunkSize options - optChunkOverlap options)) [0..<n])
                         [])))"
proof -
  let ?step = "optChunkSize options - optChunkOverlap options"
  let ?n = "passes (int (length body)) ?step 0"
  have loop: "chunkLoop env body (optChunkSize options) ?step (optSourcePath options)
                (sessionKey options) (metadata options) 0 [] =
              Some (scanWindows env body (optChunkSize options) (optSourcePath options)
                      (sessionKey options) (metadata options) (cursorsFrom 0 ?step ?n) [])"
    using assms by (rule chunkLoop_scans)
  have first: "\<exists>chunks. chunkText env body options = Some chunks"
    using loop by (simp add: chunkText_def)
  have second: "trim body \<noteq> [] \<and> optChunkSize options < int (length body) \<longrightarrow>
            (\<exists>n. 0 < n \<and> (int n - 1) * ?step < int (length body) \<and>
               int (length body) \<le> int n * ?step \<and>
               chunkText env body options =
                 Some (scanWindows env body (optChunkSize options) (optSourcePath options)
                         (sessionKey options) (metadata options)
                         (map (\<lambda>k. int k * ?step) [0..<n]) []))"
  proof
    assume long: "trim body \<noteq> [] \<and> optChunkSize options < int (length body)"
    then have ne: "body \<noteq> []" by (auto simp: trim_def)
    then have "0 < int (length body)" by simp
    from passes_bounds [OF assms this]
    have b: "0 < ?n" "(int ?n - 1) * ?step < int (length body)" "int (length body) \<le> int ?n * ?step"
      by simp_all
    have "chunkText env body options =
            Some (scanWindows env body (optChunkSize options) (optSourcePath options)
                    (sessionKey options) (metadata options) (map (\<lambda>k. int k * ?step) [0..<?n]) [])"
      using long ne loop by (simp add: chunkText_def cursorsFrom_def)
    with b show "\<exists>n. 0 < n \<and> (int n - 1) * ?step < int (length body) \<and>
               int (length body) \<le> int n * ?step \<and>
               chunkText env body options =
                 Some (scanWindows env body (optChunkSize options) (optSourcePath options)
                         (sessionKey options) (metadata options)
                         (map (\<lambda>k. int k * ?step) [0..<n]) [])" by blast
  qed
  from first second show ?thesis by blast
qed

lemmas chunk_eval = js_def trim_def isWhiteSpace_def slice_def boundaryPatterns_def matchClass_def
  upt_rec adjustChunkBoundary_def windowChunks_def mkChunk_def chunkText_def chunkLoop.simps
  Let_def optChunkSize_def optChunkOverlap_def optSourcePath_def DEFAULT_CHUNK_SIZE_def
  DEFAULT_CHUNK_OVERLAP_def

theorem chunkText_terminates_witness:
  "(0::int) < 8 - 3 \<and>
   chunkText sampleChunkEnv (js ''abcdef. hijklm, opqrs'')
        \<lparr>chunkSize = Some 8, chunkOverlap = Some 3, sourcePath = None, sessionKey = None,
         metadata = None\<rparr> =
     Some (scanWindows sampleChunkEnv (js ''abcdef. hijklm, opqrs'') 8 (js ''unknown'') None None
             [0, 5, 10, 15, 20] []) \<and>
   map (\<lambda>c. (chunk_offset c, chunk_text c))
     (scanWindows sampleChunkEnv (js ''abcdef. hijklm, opqrs'') 8 (js ''unknown'') None None
        [0, 5, 10, 15, 20] []) =
     [(0, js ''abcdef.''), (5, js ''f. hijkl''), (10, js ''jklm, op''), (15, js ''opqrs''), (20, js ''s'')]"
proof -
  let ?O = "\<lparr>chunkSize = Some 8, chunkOverlap = Some 3, sourcePath = None, sessionKey = None,
         metadata = None\<rparr>"
  let ?T = "js ''abcdef. hijklm, opqrs''"
  have len: "int (length ?T) = 21" by (simp add: js_def)
  have tr: "trim ?T \<noteq> []" by (simp add: js_def trim_def isWhiteSpace_def)
  have st: "optChunkSize ?O - optChunkOverlap ?O = 5" "optChunkSize ?O = 8"
    "optSourcePath ?O = js ''unknown''"
    by (simp_all add: optChunkSize_def optChunkOverlap_def optSourcePath_def)
  from chunkText_terminates [of ?O sampleChunkEnv ?T] st len tr
  obtain n where n: "0 < n" "(int n - 1) * 5 < 21" "21 \<le> int n * 5"
    "chunkText sampleChunkEnv ?T ?O =
       Some (scanWindows sampleChunkEnv ?T 8 (js ''unknown'') None None
               (map (\<lambda>k. int k * 5) [0..<n]) [])"
    by auto
  from n(2,3) have "int n = 5" by presburger
  then have "n = 5" by simp
  then have "map (\<lambda>k. int k * 5) [0..<n] = [0, 5, 10, 15, 20]" by (simp add: upt_rec)
  with n(4) have "chunkText sampleChunkEnv ?T ?O =
       Some (scanWindows sampleChunkEnv ?T 8 (js ''unknown'') None None [0, 5, 10, 15, 20] [])"
    by simp
  moreover have "map (\<lambda>c. (chunk_offset c, chunk_text c))
     (scanWindows sampleChunkEnv ?T 8 (js ''unknown'') None None [0, 5, 10, 15, 20] []) =
     [(0, js ''abcdef.''), (5, js ''f. hijkl''), (10, js ''jklm, op''), (15, js ''opqrs''), (20, js ''s'')]"
    by (simp add: scanWindows_def chunk_eval)
  ultimately show ?thesis by simp
qed

text \<open>
  Claim C9. A text that is empty or blank gives no chunk. A text that is not blank and no
  longer than the chunk size gives exactly one chunk, at offset 0, whose text is the trimmed
  input.
\<close>

theorem chunkText_single_chunk:
  "(trim body = [] \<longrightarrow> chunkText env body options = Some []) \<and>
   (trim body \<noteq> [] \<and> int (length body) \<le> optChunkSize options \<longrightarrow>
      (\<exists>c. chunkText env body options = Some [c] \<and> chunk_text c = trim body \<and> chunk_offset c = 0))"
  by (auto simp add: chunkText_def mkChunk_def trim_def)

theorem chunkText_single_chunk_witness:
  "chunkText sampleChunkEnv (js ''  '') \<lparr>chunkSize = None, chunkOverlap = None,
      sourcePath = None, sessionKey = None, metadata = None\<rparr> = Some [] \<and>
   trim (js '' hi '') \<noteq> [] \<and> int (length (js '' hi '')) \<le> 4 \<and>
   (\<exists>c. chunkText sampleChunkEnv (js '' hi '') \<lparr>chunkSize = Some 4, chunkOverlap = None,
      sourcePath = None, sessionKey = None, metadata = None\<rparr> = Some [c] \<and>
      chunk_text c = js ''hi'' \<and> chunk_offset c = 0)"
  using chunkText_single_chunk [of "js ''  ''" sampleChunkEnv "\<lparr>chunkSize = None,
      chunkOverlap = None, sourcePath = None, sessionKey = None, metadata = None\<rparr>"]
    chunkText_single_chunk [of "js '' hi ''" sampleChunkEnv "\<lparr>chunkSize = Some 4,
      chunkOverlap = None, sourcePath = None, sessionKey = None, metadata = None\<rparr>"]
  by (simp add: js_def trim_def isWhiteSpace_def optChunkSize_def)

text \<open>
  Claim C2. The text between a natural boundary and the next window is in no chunk. With a
  chunk size of 16 and an overlap of 2, the first window of the 30-character text below ends
  after the full stop at position 12 and the second starts at position 14: the \<open>X\<close> at
  position 13 (code unit 88) is lost, although the overlap is 2, and the non-overlap regions
  of the chunks do not give the text back.
\<close>

theorem chunkText_drops_text_after_boundary:
  "\<exists>chunks. chunkText env (js ''abcdefghijkl.XYZmnopqrstuvwxyz'')
       \<lparr>chunkSize = Some 16, chunkOverlap = Some 2, sourcePath = None, sessionKey = None,
        metadata = None\<rparr> = Some chunks \<and>
     map (\<lambda>c. (chunk_offset c, chunk_text c)) chunks =
       [(0, js ''abcdefghijkl.''), (14, js ''YZmnopqrstuvwxyz''), (28, js ''yz'')] \<and>
     js ''abcdefghijkl.XYZmnopqrstuvwxyz'' ! 13 = 88 \<and>
     88 \<notin> set (concat (map chunk_text chunks)) \<and>
     nonOverlapText 2 chunks = js ''abcdefghijkl.mnopqrstuvwxyz''"
  by (simp add: chunk_eval nonOverlapText_def)

section \<open>Properties of the vector store\<close>

text \<open>
  Claim C1, as stated, fails: with the index file present and the metadata file absent,
  \<open>initialize\<close> does not fail but creates a fresh empty index.
\<close>

theorem initialize_one_file_counterexample:
  "initialize newStore \<lparr>indexDir = DirPresent, indexFile = Content [], metaFile = Absent\<rparr> =
     (Inr IndexCreated, Typed \<lparr>index = Some [], documents = [], nextId = 0, isDirty = False\<rparr>)"
  by (simp add: initialize_def existsSync_def newStore_def)

lemma load_ok_shape:
  "fst (load s fs) = Inr u \<Longrightarrow>
   (\<exists>idx. indexFile fs = Content idx) \<and>
   (\<exists>n d. metaFile fs = Content (JsonValue n d) \<and> d \<noteq> NotEntries)"
  by (auto simp: load_def split: if_splits disk_file.splits metadata_json.splits
      nextId_json.splits documents_json.splits)

lemma load_unreadable:
  "indexFile fs = Unreadable \<or> metaFile fs = Unreadable \<Longrightarrow> isl (fst (load s fs))"
  by (auto simp: load_def split: if_splits disk_file.splits metadata_json.splits
      nextId_json.splits documents_json.splits)

text \<open>
  Claim C1, amended. \<open>initialize\<close> fails whenever both files are present and the index file
  cannot be read or the metadata file cannot be read or parsed. When exactly one of the two
  files is present it does not fail, unless the directory cannot be created, but creates a
  fresh empty index and leaves the rest of the store as it was. It creates a fresh index
  only when at least one of the files is absent, and it completes a load only when both
  files are present, the index file is readable and the metadata parses to a value whose
  \<open>documents\<close> are accepted by \<open>new Map\<close>.
\<close>

theorem initialize_cases:
  "(existsSync (indexFile fs) \<and> existsSync (metaFile fs) \<and>
      (indexFile fs = Unreadable \<or> metaFile fs = Unreadable) \<longrightarrow>
      isl (fst (initialize s fs))) \<and>
   (indexDir fs \<noteq> DirBlocked \<and> existsSync (indexFile fs) \<noteq> existsSync (metaFile fs) \<longrightarrow>
      initialize s fs = (Inr IndexCreated, Typed (s\<lparr>index := Some []\<rparr>))) \<and>
   (fst (initialize s fs) = Inr IndexCreated \<longrightarrow>
      \<not> (existsSync (indexFile fs) \<and> existsSync (metaFile fs))) \<and>
   (fst (initialize s fs) = Inr IndexLoaded \<longrightarrow>
      (\<exists>idx. indexFile fs = Content idx) \<and>
      (\<exists>n d. metaFile fs = Content (JsonValue n d) \<and> d \<noteq> NotEntries))"
proof -
  have a: "existsSync (indexFile fs) \<and> existsSync (metaFile fs) \<and>
      (indexFile fs = Unreadable \<or> metaFile fs = Unreadable) \<longrightarrow>
      isl (fst (initialize s fs))"
    using load_unreadable [of fs s]
    by (auto simp: initialize_def split: prod.splits sum.splits)
  have b: "indexDir fs \<noteq> DirBlocked \<and> existsSync (indexFile fs) \<noteq> existsSync (metaFile fs) \<longrightarrow>
      initialize s fs = (Inr IndexCreated, Typed (s\<lparr>index := Some []\<rparr>))"
    by (auto simp: initialize_def)
  have c: "fst (initialize s fs) = Inr IndexCreated \<longrightarrow>
      \<not> (existsSync (indexFile fs) \<and> existsSync (metaFile fs))"
    by (auto simp: initialize_def split: if_splits prod.splits sum.splits)
  have d: "fst (initialize s fs) = Inr IndexLoaded \<longrightarrow>
      (\<exists>idx. indexFile fs = Content idx) \<and>
      (\<exists>n d. metaFile fs = Content (JsonValue n d) \<and> d \<noteq> NotEntries)"
  proof
    assume "fst (initialize s fs) = Inr IndexLoaded"
    then have "fst (load s fs) = Inr ()"
      by (auto simp: initialize_def split: if_splits prod.splits sum.splits)
    then show "(\<exists>idx. indexFile fs = Content idx) \<and>
      (\<exists>n d. metaFile fs = Content (JsonValue n d) \<and> d \<noteq> NotEntries)"
      by (rule load_ok_shape)
  qed
  from a b c d show ?thesis by blast
qed

theorem initialize_cases_witness:
  "isl (fst (initialize newStore
      \<lparr>indexDir = DirPresent, indexFile = Content [], metaFile = Unreadable\<rparr>)) \<and>
   initialize newStore \<lparr>indexDir = DirCreatable, indexFile = Absent,
       metaFile = Content (JsonValue (IntegerId 0) (EntryList []))\<rparr> =
     (Inr IndexCreated, Typed \<lparr>index = Some [], documents = [], nextId = 0, isDirty = False\<rparr>) \<and>
   initialize newStore \<lparr>indexDir = DirPresent, indexFile = Content [sampleVector],
       metaFile = Content (JsonValue (IntegerId 1) (EntryList [(0, sampleChunk (js ''a''))]))\<rparr> =
     (Inr IndexLoaded,
      Typed \<lparr>index = Some [sampleVector], documents = [(0, sampleChunk (js ''a''))],
             nextId = 1, isDirty = False\<rparr>)"
  using initialize_cases [of "\<lparr>indexDir = DirPresent, indexFile = Content [], metaFile = Unreadable\<rparr>" newStore]
    initialize_cases [of "\<lparr>indexDir = DirCreatable, indexFile = Absent,
       metaFile = Content (JsonValue (IntegerId 0) (EntryList []))\<rparr>" newStore]
    initialize_cases [of "\<lparr>indexDir = DirPresent, indexFile = Content [sampleVector],
       metaFile = Content (JsonValue (IntegerId 1) (EntryList [(0, sampleChunk (js ''a''))]))\<rparr>" newStore]
  by (simp add: initialize_def load_def existsSync_def newStore_def newMap_def)

lemma upto_shift: "[a..a + int (Suc n) - 1] = a # [a + 1..a + 1 + int n - 1]"
  by (simp add: upto_rec1)

lemma addBatchLoop_result:
  "index s = Some idx \<Longrightarrow>
   snd (addBatchLoop s idx items ids) =
     ids @ [nextId s..nextId s + int (length (validItems items)) - 1] \<and>
   nextId (fst (addBatchLoop s idx items ids)) = nextId s + int (length (validItems items)) \<and>
   index (fst (addBatchLoop s idx items ids)) = Some (idx @ map snd (validItems items)) \<and>
   documents (fst (addBatchLoop s idx items ids)) =
     setAll (documents s)
       (zip [nextId s..nextId s + int (length (validItems items)) - 1] (map fst (validItems items))) \<and>
   isDirty (fst (addBatchLoop s idx items ids)) = isDirty s"
proof (induction items arbitrary: s idx ids)
  case Nil
  then show ?case by (simp add: validItems_def setAll_def)
next
  case (Cons item items)
  obtain chunk emb where item: "item = (chunk, emb)" by (cases item)
  show ?case
  proof (cases "length emb = DIMENSION")
    case False
    then show ?thesis using Cons item by (simp add: validItems_def)
  next
    case True
    let ?s = "s\<lparr>nextId := nextId s + 1, index := Some (idx @ [emb]),
                documents := AList.update (nextId s) chunk (documents s)\<rparr>"
    have "index ?s = Some (idx @ [emb])" by simp
    from Cons.IH [OF this, of "ids @ [nextId s]"] True item
    show ?thesis
      by (simp add: validItems_def setAll_def upto_shift del: of_nat_Suc)
  qed
qed

text \<open>
  Claim C3. On an initialized store \<open>addBatch\<close> never throws. It returns the ids from the
  counter onwards, one for each item whose embedding has the configured dimension, in the
  order of the batch; it appends the vectors of exactly these items to the index, sets their
  chunks under their ids, and skips the other items. So a batch of five items of which two
  have a wrong dimension gives three ids.
\<close>

theorem addBatch_stores_valid_items:
  assumes "index s = Some idx"
  shows "\<exists>s'. addBatch s items =
             (Inr [nextId s..nextId s + int (length (validItems items)) - 1], s') \<and>
           index s' = Some (idx @ map snd (validItems items)) \<and>
           documents s' =
             setAll (documents s)
               (zip [nextId s..nextId s + int (length (validItems items)) - 1]
                  (map fst (validItems items))) \<and>
           nextId s' = nextId s + int (length (validItems items)) \<and>
           isDirty s'"
  using addBatchLoop_result [OF assms, of items "[]"] assms
  by (simp add: addBatch_def)

theorem addBatch_stores_valid_items_witness:
  "index (newStore\<lparr>index := Some []\<rparr>) = Some [] \<and>
   (\<exists>s'. addBatch (newStore\<lparr>index := Some []\<rparr>)
            [(sampleChunk (js ''a''), sampleVector), (sampleChunk (js ''b''), [1, 2]),
             (sampleChunk (js ''c''), sampleVector), (sampleChunk (js ''d''), []),
             (sampleChunk (js ''e''), sampleVector)] = (Inr [0, 1, 2], s') \<and>
      index s' = Some [sampleVector, sampleVector, sampleVector] \<and>
      documents s' =
        [(0, sampleChunk (js ''a'')), (1, sampleChunk (js ''c'')), (2, sampleChunk (js ''e''))] \<and>
      nextId s' = 3)"
  using addBatch_stores_valid_items [of "newStore\<lparr>index := Some []\<rparr>" "[]"
      "[(sampleChunk (js ''a''), sampleVector), (sampleChunk (js ''b''), [1, 2]),
        (sampleChunk (js ''c''), sampleVector), (sampleChunk (js ''d''), []),
        (sampleChunk (js ''e''), sampleVector)]"]
  by (simp add: newStore_def validItems_def setAll_def sampleVector_def DIMENSION_def
      getEmbeddingDimension_def upto_rec1) blast

lemma collectResults_length: "length (collectResults docs res) \<le> length res"
  by (induction res) (auto split: option.splits)

lemma collectResults_lower:
  "\<forall>p\<in>set res. snd p \<le> b \<Longrightarrow> \<forall>r\<in>set (collectResults docs res). 1 - b \<le> distance r"
  by (induction res) (auto split: option.splits if_splits)

lemma collectResults_sorted:
  "sorted_wrt (\<ge>) (map snd res) \<Longrightarrow> sorted (map distance (collectResults docs res))"
proof (induction res)
  case Nil
  then show ?case by simp
next
  case (Cons p rest)
  obtain label score where p: "p = (label, score)" by (cases p)
  from Cons p have "\<forall>p\<in>set rest. snd p \<le> score" by auto
  from collectResults_lower [OF this, of docs] Cons p
  show ?case by (auto split: option.splits)
qed

text \<open>
  Claim C4. On an initialized store, \<open>search\<close> returns the empty sequence when the store
  holds no document. Let the index answer a request for \<open>n\<close> neighbours with \<open>n\<close> labels in
  the order of decreasing inner product, as a flat inner-product index does. Then \<open>search\<close>
  returns at most \<open>min k documentCount\<close> results, in the order of non-decreasing distance,
  the distance being 1 minus the inner product; and it fails only when the index does.
\<close>

theorem search_bounded_sorted:
  assumes "index s = Some idx"
    and "\<forall>res. indexSearch idx q (min k (getDocumentCount s)) = Inr res \<longrightarrow>
           length res = min k (getDocumentCount s) \<and> sorted_wrt (\<ge>) (map snd res)"
  shows "(getDocumentCount s = 0 \<longrightarrow> search indexSearch s q k = Inr []) \<and>
         (\<forall>rs. search indexSearch s q k = Inr rs \<longrightarrow>
            length rs \<le> min k (getDocumentCount s) \<and> sorted (map distance rs)) \<and>
         (\<forall>e. search indexSearch s q k = Inl e \<longrightarrow>
            indexSearch idx q (min k (getDocumentCount s)) = Inl e)"
proof (cases "getDocumentCount s = 0")
  case True
  then show ?thesis using assms(1) by (simp add: search_def)
next
  case False
  show ?thesis
  proof (cases "indexSearch idx q (min k (getDocumentCount s))")
    case (Inl e)
    then show ?thesis using assms(1) False by (simp add: search_def)
  next
    case (Inr res)
    then have "length res = min k (getDocumentCount s)" "sorted_wrt (\<ge>) (map snd res)"
      using assms(2) by auto
    moreover have "search indexSearch s q k = Inr (collectResults (documents s) res)"
      using assms(1) False Inr by (simp add: search_def)
    ultimately show ?thesis
      using collectResults_length [of "documents s" res] collectResults_sorted [of res "documents s"]
      by auto
  qed
qed

theorem search_bounded_sorted_witness:
  "(\<exists>rs. search (\<lambda>idx q n. Inr (take n [(1, 1), (0, 1 / 2)]))
           \<lparr>index = Some [sampleVector, sampleVector],
            documents = [(0, sampleChunk (js ''a'')), (1, sampleChunk (js ''b''))],
            nextId = 2, isDirty = False\<rparr> sampleVector 5 = Inr rs \<and>
      length rs \<le> 2 \<and> sorted (map distance rs) \<and> map result_id rs = [1, 0])"
  using search_bounded_sorted [of "\<lparr>index = Some [sampleVector, sampleVector],
            documents = [(0, sampleChunk (js ''a'')), (1, sampleChunk (js ''b''))],
            nextId = 2, isDirty = False\<rparr>" "[sampleVector, sampleVector]"
      "\<lambda>idx q n. Inr (take n [(1, 1), (0, 1 / 2)])" sampleVector 5]
  by (simp add: search_def getDocumentCount_def)














text \<open>
  \<open>clear\<close> is not among these operations: it sets the counter back to 0, and the ids
  assigned after it start again from 0.
\<close>

lemma clear_resets_counter: "nextId (clear s) = 0"
  by (simp add: clear_def)

section \<open>Properties of the task queue\<close>

lemma insertSorted_insort: "insertSorted byPriority x ys = insort_key (\<lambda>t. - priority t) x ys"
  by (induction ys) (auto simp: byPriority_def)

lemma sortBy_sort_key: "sortBy byPriority xs = sort_key (\<lambda>t. - priority t) xs"
  by (induction xs) (auto simp: sortBy_def insertSorted_insort)

lemma sortBy_sorted: "sorted_wrt (\<lambda>a b. priority b \<le> priority a) (sortBy byPriority xs)"
proof -
  have "sorted (map (\<lambda>t. - priority t) (sortBy byPriority xs))"
    by (simp add: sortBy_sort_key)
  then show ?thesis by (simp add: sorted_map)
qed

lemma sortBy_stable:
  "filter (\<lambda>t. priority t = p) (sortBy byPriority xs) = filter (\<lambda>t. priority t = p) xs"
proof -
  have "filter (\<lambda>t. - priority t = - p) (sort_key (\<lambda>t. - priority t) xs) =
        filter (\<lambda>t. - priority t = - p) xs"
    by (rule sort_key_stable)
  then show ?thesis by (simp add: sortBy_sort_key)
qed

lemma addTasks_snoc:
  "addTasks svc (calls @ [(env, task)]) = snd (addTask env (addTasks svc calls) task)"
  by (induction svc calls rule: addTasks.induct) auto

lemma addTasks_stable:
  "filter (\<lambda>t. priority t = p) (taskQueue (addTasks svc calls)) =
   filter (\<lambda>t. priority t = p) (taskQueue svc @ map (\<lambda>(env, task). fullTask env task) calls)"
  by (induction svc calls rule: addTasks.induct) (auto simp: addTask_def sortBy_stable)

text \<open>
  Claim C7. After every \<open>addTask\<close> call of a sequence of calls the queue is sorted by
  descending priority, and the tasks of any one priority stand in the order in which they
  stood in the queue before the sequence, followed by the new ones in the order of their
  calls: the sort is stable.
\<close>

theorem addTask_sorted_stable:
  assumes "calls \<noteq> []"
  shows "sorted_wrt (\<lambda>a b. priority b \<le> priority a) (taskQueue (addTasks svc calls)) \<and>
         (\<forall>p. filter (\<lambda>t. priority t = p) (taskQueue (addTasks svc calls)) =
              filter (\<lambda>t. priority t = p)
                (taskQueue svc @ map (\<lambda>(env, task). fullTask env task) calls))"
proof -
  obtain cs c where "calls = cs @ [c]" using assms by (metis rev_exhaust)
  then have "taskQueue (addTasks svc calls) =
      sortBy byPriority (taskQueue (addTasks svc cs) @ [fullTask (fst c) (snd c)])"
    by (cases c) (simp add: addTasks_snoc addTask_def)
  then have "sorted_wrt (\<lambda>a b. priority b \<le> priority a) (taskQueue (addTasks svc calls))"
    by (simp add: sortBy_sorted)
  then show ?thesis using addTasks_stable [of _ svc calls] by blast
qed

theorem addTask_sorted_stable_witness:
  "map (\<lambda>t. (priority t, task_id t))
     (taskQueue (addTasks \<lparr>taskQueue = [], isProcessing = False\<rparr>
        [(sampleTaskEnv 17, sampleTask 1), (sampleTaskEnv 18, sampleTask 5),
         (sampleTaskEnv 19, sampleTask 1)])) =
     [(5, js ''task-18-k3x9qa''), (1, js ''task-17-k3x9qa''), (1, js ''task-19-k3x9qa'')] \<and>
   sorted_wrt (\<lambda>a b. priority b \<le> priority a)
     (taskQueue (addTasks \<lparr>taskQueue = [], isProcessing = False\<rparr>
        [(sampleTaskEnv 17, sampleTask 1), (sampleTaskEnv 18, sampleTask 5),
         (sampleTaskEnv 19, sampleTask 1)]))"
  using addTask_sorted_stable [of "[(sampleTaskEnv 17, sampleTask 1), (sampleTaskEnv 18, sampleTask 5),
         (sampleTaskEnv 19, sampleTask 1)]" "\<lparr>taskQueue = [], isProcessing = False\<rparr>"]
  by (simp add: addTask_def sortBy_def byPriority_def fullTask_def sampleTask_def
      sampleTaskEnv_def js_def)

section \<open>Properties of the retrieval hook\<close>

lemma dedupe_nonempty: "results \<noteq> [] \<Longrightarrow> dedupe [] results \<noteq> []"
  by (cases results) auto

lemma formatRagResultsXml_truthy:
  "results \<noteq> [] \<Longrightarrow> truthy (Some (formatRagResultsXml toFixed2 results))"
  using dedupe_nonempty [of results]
  by (simp add: formatRagResultsXml_def truthy_def js_def)

lemma handler_retrieved:
  assumes "handler toFixed2 rag st event agentId now = (out, st')"
    and "retrievals st' = retrievals st @ [q]"
    and "out \<noteq> None"
  shows "lastQuery st' = Some q \<and> lastResult st' = out \<and> truthy out \<and> lastTimestamp st' = now \<and>
         MIN_QUERY_LENGTH \<le> length q"
  using assms formatRagResultsXml_truthy [of _ toFixed2]
  by (auto simp: handler_def Let_def split: if_splits option.splits)

lemma handler_cache_hit:
  assumes "extractUserQuery event = Some q"
    and "lastQuery st = Some q" and "truthy (lastResult st)"
    and "now - lastTimestamp st < CACHE_TTL" and "MIN_QUERY_LENGTH \<le> length q"
  shows "retrievals (snd (handler toFixed2 rag st event agentId now)) = retrievals st \<and>
         (agentId \<in> set ALLOWED_AGENTS \<longrightarrow>
            handler toFixed2 rag st event agentId now = (lastResult st, st))"
  using assms by (auto simp: handler_def MIN_QUERY_LENGTH_def)

lemma handler_keeps_cache:
  assumes "\<not> storesResult toFixed2 st (rag, event, agentId, now)"
  shows "lastQuery (snd (handler toFixed2 rag st event agentId now)) = lastQuery st \<and>
         lastResult (snd (handler toFixed2 rag st event agentId now)) = lastResult st \<and>
         lastTimestamp (snd (handler toFixed2 rag st event agentId now)) = lastTimestamp st"
  using assms
  by (auto simp: storesResult_def handler_def Let_def split: if_splits option.splits)

lemma handlerCalls_keeps_cache:
  "noneStores toFixed2 st calls \<Longrightarrow>
   lastQuery (handlerCalls toFixed2 st calls) = lastQuery st \<and>
   lastResult (handlerCalls toFixed2 st calls) = lastResult st \<and>
   lastTimestamp (handlerCalls toFixed2 st calls) = lastTimestamp st"
proof (induction toFixed2 st calls rule: handlerCalls.induct)
  case (1 toFixed2 st)
  then show ?case by simp
next
  case (2 toFixed2 st rag event agentId now calls)
  then show ?case using handler_keeps_cache [of toFixed2 st rag event agentId now] by simp
qed

lemma sampleQuery_length: "length sampleQuery = 33"
  by (simp add: sampleQuery_def js_def)

lemma sampleQuery_nonempty: "sampleQuery \<noteq> []"
  using sampleQuery_length by auto

lemma otherQuery_length: "length otherQuery = 27"
  by (simp add: otherQuery_def js_def)

lemma otherQuery_nonempty: "otherQuery \<noteq> []"
  using otherQuery_length by auto

lemma queries_differ: "sampleQuery \<noteq> otherQuery"
  using sampleQuery_length otherQuery_length by auto

lemma sample_extract: "extractUserQuery sampleEvent = Some sampleQuery"
  by (simp add: extractUserQuery_def sampleEvent_def sampleQuery_def js_def)

lemma other_extract: "extractUserQuery otherEvent = Some otherQuery"
  by (simp add: extractUserQuery_def otherEvent_def otherQuery_def js_def)

lemma main_allowed: "js ''main'' \<in> set ALLOWED_AGENTS"
  by (simp add: ALLOWED_AGENTS_def)

lemmas handler_eval = handler_def sample_extract other_extract sampleQuery_length
  otherQuery_length sampleQuery_nonempty otherQuery_nonempty queries_differ
  queries_differ [symmetric] main_allowed
  MIN_QUERY_LENGTH_def CACHE_TTL_def sampleResults_def otherResults_def

lemma sample_first_call:
  "handler sampleToFixed (\<lambda>q. Some sampleResults) initialHandlerState sampleEvent (js ''main'') 1000 =
     (Some (formatRagResultsXml sampleToFixed sampleResults),
      \<lparr>lastQuery = Some sampleQuery,
       lastResult = Some (formatRagResultsXml sampleToFixed sampleResults),
       lastTimestamp = 1000, retrievals = [sampleQuery]\<rparr>)"
  by (simp add: handler_eval initialHandlerState_def)

text \<open>
  Claim C8, as stated, fails: the cache has one slot. A retrieval of another query that
  completes with results in between takes the slot, and the repeat of the first query, two
  seconds after its retrieval, retrieves again and here returns nothing.
\<close>

theorem handler_other_query_between_counterexample:
  "handler sampleToFixed (\<lambda>q. Some sampleResults) initialHandlerState sampleEvent (js ''main'') 1000 =
     (Some (formatRagResultsXml sampleToFixed sampleResults),
      \<lparr>lastQuery = Some sampleQuery,
       lastResult = Some (formatRagResultsXml sampleToFixed sampleResults),
       lastTimestamp = 1000, retrievals = [sampleQuery]\<rparr>) \<and>
   handler sampleToFixed (\<lambda>q. Some otherResults)
     \<lparr>lastQuery = Some sampleQuery,
      lastResult = Some (formatRagResultsXml sampleToFixed sampleResults),
      lastTimestamp = 1000, retrievals = [sampleQuery]\<rparr> otherEvent (js ''main'') 2000 =
     (Some (formatRagResultsXml sampleToFixed otherResults),
      \<lparr>lastQuery = Some otherQuery,
       lastResult = Some (formatRagResultsXml sampleToFixed otherResults),
       lastTimestamp = 2000, retrievals = [sampleQuery, otherQuery]\<rparr>) \<and>
   handler sampleToFixed (\<lambda>q. None)
     \<lparr>lastQuery = Some otherQuery,
      lastResult = Some (formatRagResultsXml sampleToFixed otherResults),
      lastTimestamp = 2000, retrievals = [sampleQuery, otherQuery]\<rparr> sampleEvent (js ''main'') 3000 =
     (None,
      \<lparr>lastQuery = Some otherQuery,
       lastResult = Some (formatRagResultsXml sampleToFixed otherResults),
       lastTimestamp = 2000, retrievals = [sampleQuery, otherQuery, sampleQuery]\<rparr>)"
  by (simp add: handler_eval initialHandlerState_def)

text \<open>
  Claim C8, amended. Let a call of the handler have retrieved for the query \<open>q\<close> (its call of
  \<open>performRagRetrieval\<close> is the last of the trace) and returned a context, which it does exactly
  when the results are not empty. Let any calls follow of which none completes a retrieval
  with results that are not empty, and then a call with the same query \<open>q\<close>, less than
  \<open>CACHE_TTL\<close> = 5000 ms after the time the first call recorded. Then this call makes no
  retrieval, so no embedding and no search, and for an allowed agent it returns the context
  of the first call and leaves the state as it is.
\<close>

theorem handler_repeat_uses_cache:
  assumes "handler toFixed2 rag1 st0 event1 agent1 now1 = (out1, st1)"
    and "retrievals st1 = retrievals st0 @ [q]"
    and "out1 \<noteq> None"
    and "noneStores toFixed2 st1 between"
    and "extractUserQuery event2 = Some q"
    and "now2 - now1 < CACHE_TTL"
  shows "retrievals (snd (handler toFixed2 rag2 (handlerCalls toFixed2 st1 between) event2 agent2 now2)) =
           retrievals (handlerCalls toFixed2 st1 between) \<and>
         (agent2 \<in> set ALLOWED_AGENTS \<longrightarrow>
            handler toFixed2 rag2 (handlerCalls toFixed2 st1 between) event2 agent2 now2 =
              (out1, handlerCalls toFixed2 st1 between))"
proof -
  let ?st2 = "handlerCalls toFixed2 st1 between"
  from handler_retrieved [OF assms(1,2,3)]
  have c: "lastQuery st1 = Some q" "lastResult st1 = out1" "truthy out1" "lastTimestamp st1 = now1"
    "MIN_QUERY_LENGTH \<le> length q" by auto
  from handlerCalls_keeps_cache [OF assms(4)] c
  have d: "lastQuery ?st2 = Some q" "lastResult ?st2 = out1" "truthy (lastResult ?st2)"
    "lastTimestamp ?st2 = now1" by auto
  from handler_cache_hit [of event2 q ?st2 now2 toFixed2 rag2 agent2] d c(5) assms(5,6)
  show ?thesis by simp
qed

theorem handler_repeat_uses_cache_witness:
  "noneStores sampleToFixed
     \<lparr>lastQuery = Some sampleQuery,
      lastResult = Some (formatRagResultsXml sampleToFixed sampleResults),
      lastTimestamp = 1000, retrievals = [sampleQuery]\<rparr>
     [(\<lambda>q. None, otherEvent, js ''main'', 2000)] \<and>
   handler sampleToFixed (\<lambda>q. None)
     \<lparr>lastQuery = Some sampleQuery,
      lastResult = Some (formatRagResultsXml sampleToFixed sampleResults),
      lastTimestamp = 1000, retrievals = [sampleQuery, otherQuery]\<rparr>
     sampleEvent (js ''main'') 5999 =
   (Some (formatRagResultsXml sampleToFixed sampleResults),
    \<lparr>lastQuery = Some sampleQuery,
     lastResult = Some (formatRagResultsXml sampleToFixed sampleResults),
     lastTimestamp = 1000, retrievals = [sampleQuery, otherQuery]\<rparr>)"
proof -
  let ?st1 = "\<lparr>lastQuery = Some sampleQuery,
      lastResult = Some (formatRagResultsXml sampleToFixed sampleResults),
      lastTimestamp = 1000, retrievals = [sampleQuery]\<rparr>"
  let ?between = "[(\<lambda>q. None, otherEvent, js ''main'', 2000)] :: HandlerCall list"
  have quiet: "noneStores sampleToFixed ?st1 ?between"
    by (simp add: storesResult_def handler_eval)
  have after: "handlerCalls sampleToFixed ?st1 ?between =
      \<lparr>lastQuery = Some sampleQuery,
       lastResult = Some (formatRagResultsXml sampleToFixed sampleResults),
       lastTimestamp = 1000, retrievals = [sampleQuery, otherQuery]\<rparr>"
    by (simp add: handler_eval)
  have trace: "retrievals ?st1 = retrievals initialHandlerState @ [sampleQuery]"
    by (simp add: initialHandlerState_def)
  have ttl: "(5999::int) - 1000 < CACHE_TTL" by (simp add: CACHE_TTL_def)
  have "Some (formatRagResultsXml sampleToFixed sampleResults) \<noteq> None" by simp
  from handler_repeat_uses_cache [OF sample_first_call trace this quiet sample_extract ttl,
      of "\<lambda>q. None" "js ''main''"] main_allowed
  have "handler sampleToFixed (\<lambda>q. None) (handlerCalls sampleToFixed ?st1 ?between)
          sampleEvent (js ''main'') 5999 =
        (Some (formatRagResultsXml sampleToFixed sampleResults),
         handlerCalls sampleToFixed ?st1 ?between)"
    by blast
  then have "handler sampleToFixed (\<lambda>q. None)
     \<lparr>lastQuery = Some sampleQuery,
      lastResult = Some (formatRagResultsXml sampleToFixed sampleResults),
      lastTimestamp = 1000, retrievals = [sampleQuery, otherQuery]\<rparr>
     sampleEvent (js ''main'') 5999 =
   (Some (formatRagResultsXml sampleToFixed sampleResults),
    \<lparr>lastQuery = Some sampleQuery,
     lastResult = Some (formatRagResultsXml sampleToFixed sampleResults),
     lastTimestamp = 1000, retrievals = [sampleQuery, otherQuery]\<rparr>)"
    by (simp only: after)
  with quiet show ?thesis by (rule conjI)
qed

section \<open>Properties of the retrieval gate\<close>

lemma toLowerCase_digits:
  assumes "\<forall>c\<in>set s. digitOrSpace c"
  shows "toLowerCase lowerUnicode s = s"
proof -
  have "\<forall>c\<in>set s. (c < 128 \<or> isWhiteSpace c) \<and> asciiLower c = c"
    using assms by (auto simp: digitOrSpace_def asciiLower_def isWhiteSpace_def)
  then show ?thesis by (auto simp: toLowerCase_def intro: map_idI)
qed

lemma codePoints_no_surrogates:
  "\<forall>c\<in>set s. \<not> (55296 \<le> c \<and> c \<le> 56319) \<Longrightarrow> codePoints s = s"
  by (induction s rule: codePoints.induct) auto

lemma emojiOnly_digits:
  assumes "\<forall>c\<in>set s. digitOrSpace c" and "s \<noteq> []"
  shows "emojiOnly emojiTable s"
proof -
  have "\<forall>c\<in>set s. \<not> (55296 \<le> c \<and> c \<le> 56319)"
    using assms(1) by (auto simp: digitOrSpace_def isWhiteSpace_def)
  then have "codePoints s = s" by (rule codePoints_no_surrogates)
  moreover have "\<forall>c\<in>set s. isEmoji emojiTable c \<or> isWhiteSpace c"
    using assms(1) by (auto simp: digitOrSpace_def isEmoji_def)
  ultimately show ?thesis using assms(2) by (simp add: emojiOnly_def list_all_iff)
qed

lemma not_greeting_digits:
  assumes "\<forall>c\<in>set s. digitOrSpace c"
  shows "s \<notin> set greetings"
  using assms by (auto simp: greetings_def js_def digitOrSpace_def isWhiteSpace_def)

text \<open>
  Claim C10. \<open>shouldPerformRag\<close> is false for every query whose trimmed text consists of
  ASCII digits and white space only. When that text has five code units or more, it is
  neither a command nor a greeting, and it is the emoji-only pattern that rejects it, since
  the digits have the property \<open>Emoji\<close>.
\<close>

theorem shouldPerformRag_rejects_digits:
  assumes "\<forall>c\<in>set (trim query). digitOrSpace c"
  shows "\<not> shouldPerformRag lowerUnicode emojiTable query \<and>
         (5 \<le> length (trim query) \<longrightarrow>
            \<not> startsWithSlash (toLowerCase lowerUnicode (trim query)) \<and>
            toLowerCase lowerUnicode (trim query) \<notin> set greetings \<and>
            emojiOnly emojiTable (toLowerCase lowerUnicode (trim query)))"
proof -
  have low: "toLowerCase lowerUnicode (trim query) = trim query"
    using assms by (rule toLowerCase_digits)
  have emo: "trim query \<noteq> [] \<Longrightarrow> emojiOnly emojiTable (trim query)"
    using assms by (rule emojiOnly_digits)
  have greet: "trim query \<notin> set greetings" using assms by (rule not_greeting_digits)
  have slash: "\<not> startsWithSlash (trim query)"
    using assms by (auto simp: startsWithSlash_def digitOrSpace_def isWhiteSpace_def split: list.splits)
  have "\<not> shouldPerformRag lowerUnicode emojiTable query"
  proof (cases "trim query = []")
    case True
    then show ?thesis using low by (simp add: shouldPerformRag_def Let_def)
  next
    case False
    then show ?thesis using emo by (simp add: shouldPerformRag_def low Let_def)
  qed
  moreover have "5 \<le> length (trim query) \<Longrightarrow> emojiOnly emojiTable (trim query)"
    using emo by (cases "trim query") auto
  ultimately show ?thesis using low greet slash by simp
qed

theorem shouldPerformRag_rejects_digits_witness:
  "list_all digitOrSpace (trim (js ''12345'')) \<and>
   \<not> shouldPerformRag (\<lambda>s. s) (\<lambda>c. False) (js ''12345'') \<and>
   5 \<le> length (trim (js ''12345'')) \<and>
   \<not> startsWithSlash (toLowerCase (\<lambda>s. s) (trim (js ''12345''))) \<and>
   toLowerCase (\<lambda>s. s) (trim (js ''12345'')) \<notin> set greetings \<and>
   emojiOnly (\<lambda>c. False) (toLowerCase (\<lambda>s. s) (trim (js ''12345'')))"
  using shouldPerformRag_rejects_digits [of "js ''12345''" "\<lambda>s. s" "\<lambda>c. False"]
  by (simp add: js_def trim_def isWhiteSpace_def digitOrSpace_def)

end
